theory Spec2Isabelle
  imports Main
begin

section \<open>JavaScript values\<close>

text \<open>
  The script \<^verbatim>\<open>js/main.js\<close> defines two classes, \<^verbatim>\<open>PortfolioSite\<close> and
  \<^verbatim>\<open>AnimationObserver\<close>. Their methods mutate the instance, the document, the
  browser's local storage and the console; the model passes one record holding all of
  these through every method, and a method that can throw returns the state it leaves
  behind together with the error.

  Strings are byte lists; the few non-ASCII characters of the source are written in
  UTF-8.
\<close>

datatype js_error = NetworkFailure | LoadError | JsonSyntaxError | TypeError | SyntaxError

text \<open>A value that is a string or \<^verbatim>\<open>undefined\<close>: \<^verbatim>\<open>dataset.lang\<close>, \<^verbatim>\<open>this.currentLanguage\<close>.\<close>

datatype langval = Undefined | Str string

text \<open>String conversion, as a property key, in a template literal and in a DOM string.\<close>

fun toStr :: "langval \<Rightarrow> string" where
  "toStr Undefined = ''undefined''"
| "toStr (Str s) = s"

text \<open>The result of reading an own string-valued property that may be missing.\<close>

fun readProp :: "string option \<Rightarrow> langval" where
  "readProp None = Undefined"
| "readProp (Some v) = Str v"

text \<open>
  A number of a JSON text: a natural number, or any other number (negative, with a
  fraction or an exponent), kept as its token.
\<close>

datatype number = Natural nat | Other string

text \<open>What \<^verbatim>\<open>JSON.parse\<close> returns. An object is the list of its own properties.\<close>

datatype json =
  JNull
| JBool bool
| JNum number
| JStr string
| JArr "json list"
| JObj "(string \<times> json) list"

text \<open>The receiver of a property read, as far as it decides what is inherited.\<close>

datatype kind = PlainObject | ArrayObject | StringValue | NumberValue | BooleanValue | DataSet

text \<open>
  The result of an expression: \<^verbatim>\<open>undefined\<close>, a parsed value, or a member that the
  receiver inherits from its prototype chain (a built-in function or prototype object,
  named by the receiver's kind and the key).
\<close>

datatype jsval = Undef | Val json | Inherited kind string

text \<open>
  An element of the document, as far as the script reads and writes it. The document is
  the list of its elements: the buttons and the translated elements are taken to have
  no element children, so that a click lands on the element itself and an assignment to
  \<^verbatim>\<open>textContent\<close> removes no other element.
\<close>

record element =
  classList :: "string list"
  dataset :: "string \<rightharpoonup> string"
  textContent :: string
  placeholder :: string

text \<open>
  What belongs to the browser and not to the script:
  \<^item> \<open>toLocaleDateString locale v\<close> is \<^verbatim>\<open>new Date(v).toLocaleDateString(locale, options)\<close>;
  \<^item> \<open>numberText\<close> prints a number that is not a natural number below \<open>2\<^sup>5\<^sup>3\<close>, and
    \<open>otherNonZero\<close> tells whether the number of such a token is not zero;
  \<^item> \<open>builtinMember\<close> tells which keys name a member of the array, string, number and
    boolean prototypes, and \<open>inheritedText\<close> is the string an inherited member
    converts to;
  \<^item> \<open>selectorMatches sel\<close> is what \<^verbatim>\<open>querySelectorAll(sel)\<close> selects, \<open>None\<close> when the
    selector does not parse.
\<close>

record browser =
  toLocaleDateString :: "string \<Rightarrow> jsval \<Rightarrow> string"
  numberText :: "number \<Rightarrow> string"
  otherNonZero :: "string \<Rightarrow> bool"
  builtinMember :: "kind \<Rightarrow> string \<Rightarrow> bool"
  inheritedText :: "kind \<Rightarrow> string \<Rightarrow> string"
  selectorMatches :: "string \<Rightarrow> (element \<Rightarrow> bool) option"

text \<open>The string-keyed members of \<^verbatim>\<open>Object.prototype\<close>.\<close>

definition objectPrototype :: "string list" where
  "objectPrototype =
     [''constructor'', ''__defineGetter__'', ''__defineSetter__'', ''hasOwnProperty'',
      ''__lookupGetter__'', ''__lookupSetter__'', ''isPrototypeOf'',
      ''propertyIsEnumerable'', ''toString'', ''valueOf'', ''__proto__'',
      ''toLocaleString'']"

definition inherited :: "browser \<Rightarrow> kind \<Rightarrow> string \<Rightarrow> bool" where
  "inherited b k key =
     (key \<in> set objectPrototype \<or>
      (k \<in> {ArrayObject, StringValue, NumberValue, BooleanValue} \<and> builtinMember b k key))"

text \<open>A natural number in decimal digits.\<close>

fun decimal :: "nat \<Rightarrow> string" where
  "decimal n =
     (if n < 10 then [''0123456789'' ! n]
      else decimal (n div 10) @ [''0123456789'' ! (n mod 10)])"

declare decimal.simps [simp del]

text \<open>
  \<^verbatim>\<open>Number.prototype.toString\<close>: a natural number below \<open>2\<^sup>5\<^sup>3\<close> is its own double and
  prints as its decimal digits; the rest is the browser's.
\<close>

definition numberToString :: "browser \<Rightarrow> number \<Rightarrow> string" where
  "numberToString b x =
     (case x of
        Natural n \<Rightarrow> if n < 2 ^ 53 then decimal n else numberText b x
      | Other token \<Rightarrow> numberText b x)"

text \<open>Truthiness.\<close>

fun truthyJson :: "browser \<Rightarrow> json \<Rightarrow> bool" where
  "truthyJson b JNull = False"
| "truthyJson b (JBool x) = x"
| "truthyJson b (JNum (Natural n)) = (n \<noteq> 0)"
| "truthyJson b (JNum (Other token)) = otherNonZero b token"
| "truthyJson b (JStr s) = (s \<noteq> [])"
| "truthyJson b (JArr xs) = True"
| "truthyJson b (JObj kvs) = True"

fun truthy :: "browser \<Rightarrow> jsval \<Rightarrow> bool" where
  "truthy b Undef = False"
| "truthy b (Val v) = truthyJson b v"
| "truthy b (Inherited k key) = True"

text \<open>
  \<^verbatim>\<open>ToString\<close>. An array joins the strings of its elements, \<^verbatim>\<open>null\<close> giving the empty
  string; an object gives \<^verbatim>\<open>[object Object]\<close>, unless an own property \<^verbatim>\<open>toString\<close>
  hides the inherited method: then the conversion throws.
\<close>

fun toString :: "browser \<Rightarrow> json \<Rightarrow> js_error + string"
  and join :: "browser \<Rightarrow> json list \<Rightarrow> js_error + string" where
  "toString b JNull = Inr ''null''"
| "toString b (JBool x) = Inr (if x then ''true'' else ''false'')"
| "toString b (JNum x) = Inr (numberToString b x)"
| "toString b (JStr s) = Inr s"
| "toString b (JArr xs) = join b xs"
| "toString b (JObj kvs) =
     (if map_of kvs ''toString'' \<noteq> None then Inl TypeError else Inr ''[object Object]'')"
| "join b [] = Inr ''''"
| "join b (x # xs) =
     (case (if x = JNull then Inr '''' else toString b x) of
        Inl err \<Rightarrow> Inl err
      | Inr s \<Rightarrow>
          if xs = [] then Inr s
          else (case join b xs of Inl err \<Rightarrow> Inl err | Inr rest \<Rightarrow> Inr (s @ '','' @ rest)))"

fun toStringVal :: "browser \<Rightarrow> jsval \<Rightarrow> js_error + string" where
  "toStringVal b Undef = Inr ''undefined''"
| "toStringVal b (Val v) = toString b v"
| "toStringVal b (Inherited k key) = Inr (inheritedText b k key)"

text \<open>
  A read \<^verbatim>\<open>v.key\<close> with one of the fixed keys of the script (\<^verbatim>\<open>posts\<close>, \<^verbatim>\<open>url\<close>,
  \<^verbatim>\<open>title\<close>, \<^verbatim>\<open>date\<close>, \<^verbatim>\<open>excerpt\<close>, \<^verbatim>\<open>readTime\<close>), none of which a built-in
  prototype has: it throws on \<^verbatim>\<open>null\<close> and \<^verbatim>\<open>undefined\<close>, gives the own property of an
  object, and \<^verbatim>\<open>undefined\<close> otherwise.
\<close>

fun getField :: "json option \<Rightarrow> string \<Rightarrow> js_error + json option" where
  "getField None key = Inl TypeError"
| "getField (Some JNull) key = Inl TypeError"
| "getField (Some (JObj kvs)) key = Inr (map_of kvs key)"
| "getField (Some v) key = Inr None"

fun fromOption :: "json option \<Rightarrow> jsval" where
  "fromOption None = Undef"
| "fromOption (Some v) = Val v"

text \<open>The element of an array that a key indexes.\<close>

definition arrayIndex :: "json list \<Rightarrow> string \<Rightarrow> json option" where
  "arrayIndex xs key =
     (case find (\<lambda>i. decimal i = key) [0..<length xs] of
        None \<Rightarrow> None
      | Some i \<Rightarrow> Some (xs ! i))"

text \<open>
  A read \<^verbatim>\<open>v[key]\<close> with a computed key, on a value that is not a string: own
  properties first, then what the value inherits. (The script returns strings before it
  reads them; their clause is never reached.)
\<close>

fun getMember :: "browser \<Rightarrow> json \<Rightarrow> string \<Rightarrow> js_error + jsval" where
  "getMember b JNull key = Inl TypeError"
| "getMember b (JObj kvs) key =
     (case map_of kvs key of
        Some v \<Rightarrow> Inr (Val v)
      | None \<Rightarrow> Inr (if inherited b PlainObject key then Inherited PlainObject key else Undef))"
| "getMember b (JArr xs) key =
     (if key = ''length'' then Inr (Val (JNum (Natural (length xs))))
      else (case arrayIndex xs key of
              Some v \<Rightarrow> Inr (Val v)
            | None \<Rightarrow>
                Inr (if inherited b ArrayObject key then Inherited ArrayObject key else Undef)))"
| "getMember b (JNum x) key =
     Inr (if inherited b NumberValue key then Inherited NumberValue key else Undef)"
| "getMember b (JBool x) key =
     Inr (if inherited b BooleanValue key then Inherited BooleanValue key else Undef)"
| "getMember b (JStr s) key =
     Inr (if inherited b StringValue key then Inherited StringValue key else Undef)"

text \<open>
  A read \<^verbatim>\<open>m[key]\<close> on an object whose own properties are strings: an element's
  \<^verbatim>\<open>dataset\<close>, the literals \<^verbatim>\<open>titles\<close> and \<^verbatim>\<open>descriptions\<close>.
\<close>

definition lookupMember :: "kind \<Rightarrow> (string \<rightharpoonup> string) \<Rightarrow> string \<Rightarrow> jsval" where
  "lookupMember k m key =
     (case m key of
        Some v \<Rightarrow> Val (JStr v)
      | None \<Rightarrow> if key \<in> set objectPrototype then Inherited k key else Undef)"

text \<open>The string a DOM property takes when such a value is assigned to it.\<close>

fun domString :: "browser \<Rightarrow> jsval \<Rightarrow> string" where
  "domString b Undef = ''undefined''"
| "domString b (Inherited k key) = inheritedText b k key"
| "domString b (Val v) = (case toString b v of Inr s \<Rightarrow> s | Inl err \<Rightarrow> [])"

section \<open>The page state\<close>

text \<open>
  The fields of \<^verbatim>\<open>PortfolioSite\<close>, then the parts of the browser the script touches.
  \<open>blogContainer\<close> is the \<^verbatim>\<open>innerHTML\<close> of \<^verbatim>\<open>#blog-posts\<close>, \<open>None\<close> when the page has no
  such element; \<open>warnings\<close> lists the calls of \<^verbatim>\<open>console.warn\<close> and \<open>requests\<close> the
  fetches issued. The storage is taken to be available: reading and writing it do not
  throw.
\<close>

record state =
  currentLanguage :: langval
  blogPosts :: json
  mobileNavOpen :: bool
  localStorage :: "string \<rightharpoonup> string"
  documentLang :: string
  documentTitle :: string
  metaDescription :: "string option"
  elements :: "element list"
  blogContainer :: "string option"
  warnings :: "(string \<times> js_error) list"
  requests :: "string list"

text \<open>How a method that writes the state ends: it returns, or it throws part-way.\<close>

datatype completion = Normal state | Thrown js_error state

section \<open>Language handling\<close>

definition eacute :: string where
  "eacute = [CHR 0xC3, CHR 0xA9]"

definition apostrophe :: string where
  "apostrophe = [CHR 0x27]"

definition titles :: "string \<rightharpoonup> string" where
  "titles = [''en'' \<mapsto> ''Tom S. - Software Engineer'',
             ''fr'' \<mapsto> ''Tom S. - Ing'' @ eacute @ ''nieur Logiciel'']"

definition descriptions :: "string \<rightharpoonup> string" where
  "descriptions =
     [''en'' \<mapsto> ''Tom S. - Software Engineer Portfolio. Explore my projects, blog posts, and get in touch.'',
      ''fr'' \<mapsto> ''Tom S. - Portfolio d'' @ apostrophe @ ''Ing'' @ eacute
         @ ''nieur Logiciel. Explorez mes projets, articles de blog et contactez-moi.'']"

text \<open>\<^verbatim>\<open>classList.toggle(c, force)\<close>.\<close>

definition toggle :: "string \<Rightarrow> bool \<Rightarrow> string list \<Rightarrow> string list" where
  "toggle c force cl =
     (if force then (if c \<in> set cl then cl else cl @ [c]) else removeAll c cl)"

text \<open>The callback of the first \<^verbatim>\<open>forEach\<close> of \<^verbatim>\<open>updateTranslations\<close>, over \<^verbatim>\<open>[data-en], [data-fr]\<close>.\<close>

definition translateElement :: "browser \<Rightarrow> langval \<Rightarrow> element \<Rightarrow> element" where
  "translateElement b lang el =
     (if dataset el ''en'' \<noteq> None \<or> dataset el ''fr'' \<noteq> None
      then (let translation = lookupMember DataSet (dataset el) (toStr lang)
            in if truthy b translation then el\<lparr>textContent := domString b translation\<rparr> else el)
      else el)"

text \<open>
  The elements that \<^verbatim>\<open>querySelectorAll(`[data-${lang}-placeholder]`)\<close> selects. For a
  language of lower-case letters and digits the selector parses and selects the
  elements whose \<^verbatim>\<open>dataset\<close> has the key \<^verbatim>\<open>${lang}Placeholder\<close>; for any other string the
  browser decides, and a selector that does not parse throws.
\<close>

definition simpleCode :: "string \<Rightarrow> bool" where
  "simpleCode code = list_all (\<lambda>c. c \<in> set ''abcdefghijklmnopqrstuvwxyz0123456789'') code"

definition placeholderElements :: "browser \<Rightarrow> string \<Rightarrow> (element \<Rightarrow> bool) option" where
  "placeholderElements b code =
     (if simpleCode code then Some (\<lambda>el. dataset el (code @ ''Placeholder'') \<noteq> None)
      else selectorMatches b (''[data-'' @ code @ ''-placeholder]''))"

text \<open>The callback of the second \<^verbatim>\<open>forEach\<close>.\<close>

definition translatePlaceholder :: "browser \<Rightarrow> langval \<Rightarrow> element \<Rightarrow> element" where
  "translatePlaceholder b lang el =
     (let ph = lookupMember DataSet (dataset el) (toStr lang @ ''Placeholder'')
      in if truthy b ph then el\<lparr>placeholder := domString b ph\<rparr> else el)"

definition updateTranslations :: "browser \<Rightarrow> state \<Rightarrow> completion" where
  "updateTranslations b s =
     (let lang = currentLanguage s;
          s1 = s\<lparr>elements := map (translateElement b lang) (elements s)\<rparr>
      in case placeholderElements b (toStr lang) of
           None \<Rightarrow> Thrown SyntaxError s1
         | Some selected \<Rightarrow>
             (let s2 = s1\<lparr>elements :=
                         map (\<lambda>el. if selected el then translatePlaceholder b lang el else el)
                           (elements s1)\<rparr>;
                  s3 = s2\<lparr>documentTitle :=
                         domString b (lookupMember PlainObject titles (toStr lang))\<rparr>
              in case metaDescription s3 of
                   None \<Rightarrow> Normal s3
                 | Some _ \<Rightarrow>
                     Normal (s3\<lparr>metaDescription :=
                       Some (domString b (lookupMember PlainObject descriptions (toStr lang)))\<rparr>)))"

text \<open>The callback over \<^verbatim>\<open>.lang-btn\<close> in \<^verbatim>\<open>switchLanguage\<close>.\<close>

definition markButton :: "langval \<Rightarrow> element \<Rightarrow> element" where
  "markButton lang btn =
     (if ''lang-btn'' \<in> set (classList btn)
      then btn\<lparr>classList := toggle ''active'' (readProp (dataset btn ''lang'') = lang) (classList btn)\<rparr>
      else btn)"

definition switchLanguage :: "browser \<Rightarrow> langval \<Rightarrow> state \<Rightarrow> completion" where
  "switchLanguage b lang s =
     (if lang = currentLanguage s then Normal s
      else (let s1 = s\<lparr>currentLanguage := lang\<rparr>;
                s2 = s1\<lparr>elements := map (markButton lang) (elements s1)\<rparr>
            in case updateTranslations b s2 of
                 Thrown err s3 \<Rightarrow> Thrown err s3
               | Normal s3 \<Rightarrow>
                   (let s4 = s3\<lparr>localStorage :=
                               (localStorage s3)(''preferredLanguage'' \<mapsto> toStr lang)\<rparr>
                    in Normal (s4\<lparr>documentLang := toStr lang\<rparr>))))"

text \<open>\<^verbatim>\<open>navigator.language.split('-')[0]\<close>.\<close>

definition primarySubtag :: "string \<Rightarrow> string" where
  "primarySubtag l = takeWhile (\<lambda>c. c \<noteq> CHR ''-'') l"

text \<open>
  The local \<^verbatim>\<open>initialLang\<close> of \<^verbatim>\<open>handleInitialLanguage\<close>, from what
  \<^verbatim>\<open>localStorage.getItem\<close> returned (\<open>None\<close> is \<^verbatim>\<open>null\<close>) and \<^verbatim>\<open>navigator.language\<close>.
\<close>

definition initialLang :: "string option \<Rightarrow> string \<Rightarrow> string" where
  "initialLang storedLang navigatorLanguage =
     (let browserLang = primarySubtag navigatorLanguage
      in case storedLang of
           Some v \<Rightarrow>
             if v \<noteq> [] \<and> v \<in> set [''en'', ''fr''] then v
             else if browserLang \<in> set [''fr''] then browserLang
             else ''en''
         | None \<Rightarrow> if browserLang \<in> set [''fr''] then browserLang else ''en'')"

definition handleInitialLanguage :: "browser \<Rightarrow> string \<Rightarrow> state \<Rightarrow> completion" where
  "handleInitialLanguage b navigatorLanguage s =
     switchLanguage b
       (Str (initialLang (localStorage s ''preferredLanguage'') navigatorLanguage)) s"

text \<open>
  \<^verbatim>\<open>getTranslatedText\<close>, on what a read of \<^verbatim>\<open>post.title\<close> or \<^verbatim>\<open>post.excerpt\<close> gave
  (\<open>None\<close> is \<^verbatim>\<open>undefined\<close>). The two \<^verbatim>\<open>||\<close> return the first truthy operand as it is.
\<close>

definition getTranslatedText :: "browser \<Rightarrow> state \<Rightarrow> json option \<Rightarrow> js_error + jsval" where
  "getTranslatedText b s text =
     (case text of
        None \<Rightarrow> Inl TypeError
      | Some (JStr str) \<Rightarrow> Inr (Val (JStr str))
      | Some v \<Rightarrow>
          (case getMember b v (toStr (currentLanguage s)) of
             Inl err \<Rightarrow> Inl err
           | Inr a \<Rightarrow>
               if truthy b a then Inr a
               else (case getMember b v ''en'' of
                       Inl err \<Rightarrow> Inl err
                     | Inr e \<Rightarrow> if truthy b e then Inr e else Inr (Val (JStr '''')))))"

section \<open>Blog posts\<close>

text \<open>Sequencing of steps that may throw, and \<^verbatim>\<open>Array.prototype.map\<close> with such a callback.\<close>

definition thenDo :: "js_error + 'a \<Rightarrow> ('a \<Rightarrow> js_error + 'b) \<Rightarrow> js_error + 'b" where
  "thenDo r f = (case r of Inl err \<Rightarrow> Inl err | Inr x \<Rightarrow> f x)"

fun mapAll :: "('a \<Rightarrow> js_error + 'b) \<Rightarrow> 'a list \<Rightarrow> js_error + 'b list" where
  "mapAll f [] = Inr []"
| "mapAll f (x # xs) = thenDo (f x) (\<lambda>y. thenDo (mapAll f xs) (\<lambda>ys. Inr (y # ys)))"

definition formatDate :: "browser \<Rightarrow> state \<Rightarrow> jsval \<Rightarrow> string" where
  "formatDate b s dateString =
     (let locale = (if currentLanguage s = Str ''fr'' then ''fr-FR'' else ''en-US'')
      in toLocaleDateString b locale dateString)"

definition bullet :: string where
  "bullet = [CHR 0xE2, CHR 0x80, CHR 0xA2]"

text \<open>
  \<^verbatim>\<open>${post.readTime ? `\<bullet> ${post.readTime} min read` : ''}\<close>: the test is on
  truthiness, and the number 0 is falsy.
\<close>

definition readTimeSuffix :: "browser \<Rightarrow> jsval \<Rightarrow> js_error + string" where
  "readTimeSuffix b rt =
     (if truthy b rt
      then thenDo (toStringVal b rt) (\<lambda>n. Inr (bullet @ '' '' @ n @ '' min read''))
      else Inr '''')"

text \<open>The strings that the template of a post interpolates, in the order of its holes.\<close>

record card =
  href :: string
  titleText :: string
  datetime :: string
  dateText :: string
  metaSuffix :: string
  excerptText :: string

definition interpolate :: "browser \<Rightarrow> state \<Rightarrow> json option \<Rightarrow> js_error + card" where
  "interpolate b s post =
     thenDo (getField post ''url'') (\<lambda>u.
     thenDo (toStringVal b (fromOption u)) (\<lambda>hrefS.
     thenDo (getField post ''title'') (\<lambda>t.
     thenDo (getTranslatedText b s t) (\<lambda>tv.
     thenDo (toStringVal b tv) (\<lambda>titleS.
     thenDo (getField post ''date'') (\<lambda>d.
     thenDo (toStringVal b (fromOption d)) (\<lambda>dateS.
     thenDo (getField post ''readTime'') (\<lambda>r.
     thenDo (readTimeSuffix b (fromOption r)) (\<lambda>suffixS.
     thenDo (getField post ''excerpt'') (\<lambda>e.
     thenDo (getTranslatedText b s e) (\<lambda>ev.
     thenDo (toStringVal b ev) (\<lambda>excerptS.
       Inr \<lparr>href = hrefS, titleText = titleS, datetime = dateS,
            dateText = formatDate b s (fromOption d), metaSuffix = suffixS,
            excerptText = excerptS\<rparr>))))))))))))"

text \<open>The two template literals, character by character; \<open>line n\<close> is a source line at indentation \<open>n\<close>.\<close>

definition quote :: string where
  "quote = [CHR 0x22]"

definition newline :: string where
  "newline = [CHR 0x0A]"

definition line :: "nat \<Rightarrow> string \<Rightarrow> string" where
  "line n txt = replicate n CHR '' '' @ txt @ newline"

definition postTemplate :: "card \<Rightarrow> string" where
  "postTemplate c =
     newline
     @ line 12 (''<article class='' @ quote @ ''blog-post'' @ quote @ ''>'')
     @ line 16 (''<h3 class='' @ quote @ ''blog-post-title'' @ quote @ ''>'')
     @ line 20 (''<a href='' @ quote @ href c @ quote @ '' target='' @ quote @ ''_blank'' @ quote
          @ '' rel='' @ quote @ ''noopener noreferrer'' @ quote @ ''>'')
     @ line 24 (titleText c)
     @ line 20 ''</a>''
     @ line 16 ''</h3>''
     @ line 16 (''<div class='' @ quote @ ''blog-post-meta'' @ quote @ ''>'')
     @ line 20 (''<time datetime='' @ quote @ datetime c @ quote @ ''>'' @ dateText c @ ''</time>'')
     @ line 20 (metaSuffix c)
     @ line 16 ''</div>''
     @ line 16 (''<p class='' @ quote @ ''blog-post-excerpt'' @ quote @ ''>'')
     @ line 20 (excerptText c)
     @ line 16 ''</p>''
     @ line 12 ''</article>''
     @ replicate 8 CHR '' ''"

definition placeholderTemplate :: "card \<Rightarrow> string" where
  "placeholderTemplate c =
     newline
     @ line 12 (''<article class='' @ quote @ ''blog-post'' @ quote @ ''>'')
     @ line 16 (''<h3 class='' @ quote @ ''blog-post-title'' @ quote @ ''>'')
     @ line 20 (''<a href='' @ quote @ href c @ quote @ ''>'')
     @ line 24 (titleText c)
     @ line 20 ''</a>''
     @ line 16 ''</h3>''
     @ line 16 (''<div class='' @ quote @ ''blog-post-meta'' @ quote @ ''>'')
     @ line 20 (''<time datetime='' @ quote @ datetime c @ quote @ ''>'' @ dateText c @ ''</time>'')
     @ line 20 (metaSuffix c)
     @ line 16 ''</div>''
     @ line 16 (''<p class='' @ quote @ ''blog-post-excerpt'' @ quote @ ''>'')
     @ line 20 (excerptText c)
     @ line 16 ''</p>''
     @ line 12 ''</article>''
     @ replicate 8 CHR '' ''"

text \<open>The callbacks of the two \<^verbatim>\<open>map\<close> calls.\<close>

definition postArticle :: "browser \<Rightarrow> state \<Rightarrow> json \<Rightarrow> js_error + string" where
  "postArticle b s post = thenDo (interpolate b s (Some post)) (\<lambda>c. Inr (postTemplate c))"

definition placeholderArticle :: "browser \<Rightarrow> state \<Rightarrow> json \<Rightarrow> js_error + string" where
  "placeholderArticle b s post =
     thenDo (interpolate b s (Some post)) (\<lambda>c. Inr (placeholderTemplate c))"

definition Eacute :: string where
  "Eacute = [CHR 0xC3, CHR 0x89]"

definition agrave :: string where
  "agrave = [CHR 0xC3, CHR 0xA0]"

definition ccedil :: string where
  "ccedil = [CHR 0xC3, CHR 0xA7]"

definition icirc :: string where
  "icirc = [CHR 0xC3, CHR 0xAE]"

text \<open>An object literal of \<^verbatim>\<open>placeholderPosts\<close>.\<close>

definition literalPost :: "string \<Rightarrow> string \<Rightarrow> string \<Rightarrow> string \<Rightarrow> string \<Rightarrow> nat \<Rightarrow> json" where
  "literalPost titleEn titleFr dateS excerptEn excerptFr minutes =
     JObj [(''title'', JObj [(''en'', JStr titleEn), (''fr'', JStr titleFr)]),
           (''date'', JStr dateS),
           (''excerpt'', JObj [(''en'', JStr excerptEn), (''fr'', JStr excerptFr)]),
           (''url'', JStr ''#''),
           (''readTime'', JNum (Natural minutes))]"

definition placeholderPosts :: "json list" where
  "placeholderPosts =
     [literalPost
        ''Getting Started with Modern Web Development''
        (''D'' @ eacute @ ''buter avec le D'' @ eacute @ ''veloppement Web Moderne'')
        ''2024-01-15''
        ''A comprehensive guide to modern web development tools and practices that every developer should know.''
        (''Un guide complet des outils et pratiques de d'' @ eacute
           @ ''veloppement web moderne que tout d'' @ eacute
           @ ''veloppeur devrait conna'' @ icirc @ ''tre.'')
        5,
      literalPost
        ''Building Scalable React Applications''
        (''Construire des Applications React '' @ Eacute @ ''volutives'')
        ''2024-01-08''
        ''Learn best practices for building React applications that scale with your business needs.''
        (''Apprenez les meilleures pratiques pour construire des applications React qui ''
           @ eacute @ ''voluent avec vos besoins commerciaux.'')
        8,
      literalPost
        ''The Future of JavaScript''
        (''L'' @ apostrophe @ ''Avenir de JavaScript'')
        ''2024-01-01''
        ''Exploring upcoming JavaScript features and how they will change the way we write code.''
        (''Explorer les fonctionnalit'' @ eacute @ ''s JavaScript '' @ agrave
           @ '' venir et comment elles changeront notre fa'' @ ccedil @ ''on d'' @ apostrophe
           @ eacute @ ''crire du code.'')
        6]"

definition renderBlogPlaceholder :: "browser \<Rightarrow> state \<Rightarrow> js_error + state" where
  "renderBlogPlaceholder b s =
     (case blogContainer s of
        None \<Rightarrow> Inr s
      | Some _ \<Rightarrow>
          thenDo (mapAll (placeholderArticle b s) placeholderPosts) (\<lambda>articles.
            Inr (s\<lparr>blogContainer := Some (concat articles)\<rparr>)))"

text \<open>\<^verbatim>\<open>x === 0\<close> for what a read of \<^verbatim>\<open>length\<close> gave.\<close>

fun isZero :: "browser \<Rightarrow> json option \<Rightarrow> bool" where
  "isZero b (Some (JNum (Natural n))) = (n = 0)"
| "isZero b (Some (JNum (Other token))) = (\<not> otherNonZero b token)"
| "isZero b v = False"

text \<open>
  \<^verbatim>\<open>renderBlogPosts\<close>, by what \<^verbatim>\<open>this.blogPosts\<close> holds. Only an array has \<^verbatim>\<open>slice\<close> and
  \<^verbatim>\<open>map\<close>: on any other value whose \<^verbatim>\<open>length\<close> is not 0 one of the two calls throws. The
  container is assigned after the last callback has returned.
\<close>

definition renderBlogPosts :: "browser \<Rightarrow> state \<Rightarrow> js_error + state" where
  "renderBlogPosts b s =
     (case blogContainer s of
        None \<Rightarrow> Inr s
      | Some _ \<Rightarrow>
          (case blogPosts s of
             JArr ps \<Rightarrow>
               if length ps = 0 then renderBlogPlaceholder b s
               else (let recentPosts = take 3 ps
                     in thenDo (mapAll (postArticle b s) recentPosts) (\<lambda>articles.
                          Inr (s\<lparr>blogContainer := Some (concat articles)\<rparr>)))
           | JObj kvs \<Rightarrow>
               if isZero b (map_of kvs ''length'') then renderBlogPlaceholder b s
               else Inl TypeError
           | JStr str \<Rightarrow> if str = [] then renderBlogPlaceholder b s else Inl TypeError
           | _ \<Rightarrow> Inl TypeError))"

text \<open>
  What the one \<^verbatim>\<open>fetch('blog/posts.json')\<close> comes back with: a rejected promise, or a
  response with its status and its body, which parses as JSON or does not.
\<close>

datatype body = Malformed | Json json

datatype fetch_outcome = NetworkError | Response nat body

text \<open>\<^verbatim>\<open>response.ok\<close>.\<close>

definition responseOk :: "nat \<Rightarrow> bool" where
  "responseOk status = (200 \<le> status \<and> status \<le> 299)"

text \<open>The two \<^verbatim>\<open>await\<close>s of the \<^verbatim>\<open>try\<close> block, with what they throw.\<close>

definition awaitData :: "fetch_outcome \<Rightarrow> js_error + json" where
  "awaitData outcome =
     (case outcome of
        NetworkError \<Rightarrow> Inl NetworkFailure
      | Response status bd \<Rightarrow>
          if \<not> responseOk status then Inl LoadError
          else (case bd of Malformed \<Rightarrow> Inl JsonSyntaxError | Json data \<Rightarrow> Inr data))"

text \<open>The \<^verbatim>\<open>catch\<close> block, entered in the state the \<^verbatim>\<open>try\<close> block left.\<close>

definition catchBlock :: "browser \<Rightarrow> js_error \<Rightarrow> state \<Rightarrow> state" where
  "catchBlock b error s =
     (let s1 = s\<lparr>warnings := warnings s @ [(''Could not load blog posts:'', error)]\<rparr>
      in case renderBlogPlaceholder b s1 of Inr s2 \<Rightarrow> s2 | Inl err \<Rightarrow> s1)"

text \<open>
  \<^verbatim>\<open>loadBlogPosts\<close>, run on the state in which the fetch completes. The read of
  \<^verbatim>\<open>data.posts\<close> and the call of \<^verbatim>\<open>renderBlogPosts\<close> are inside the \<^verbatim>\<open>try\<close> block.
\<close>

definition loadBlogPosts :: "browser \<Rightarrow> fetch_outcome \<Rightarrow> state \<Rightarrow> state" where
  "loadBlogPosts b outcome s =
     (let s1 = s\<lparr>requests := requests s @ [''blog/posts.json'']\<rparr>
      in case awaitData outcome of
           Inl error \<Rightarrow> catchBlock b error s1
         | Inr data \<Rightarrow>
             (case getField (Some data) ''posts'' of
                Inl error \<Rightarrow> catchBlock b error s1
              | Inr posts \<Rightarrow>
                  (let s2 = s1\<lparr>blogPosts :=
                              (case posts of
                                 None \<Rightarrow> JArr []
                               | Some v \<Rightarrow> if truthyJson b v then v else JArr [])\<rparr>
                   in case renderBlogPosts b s2 of
                        Inl error \<Rightarrow> catchBlock b error s2
                      | Inr s3 \<Rightarrow> s3)))"

section \<open>Events of the view controller\<close>





section \<open>Reveal on scroll\<close>

text \<open>
  \<^verbatim>\<open>AnimationObserver\<close>: elements are named by numbers; \<open>styles\<close> holds the three
  inline style properties the class writes, and \<open>observer\<close> the set of targets the
  \<^verbatim>\<open>IntersectionObserver\<close> watches (\<open>None\<close> while \<^verbatim>\<open>this.observer\<close> is undefined).
  Whether an entry is intersecting is the browser's verdict on the 10% threshold.
\<close>

record style =
  opacity :: string
  transform :: string
  transition :: string

record entry =
  target :: nat
  isIntersecting :: bool

record anim =
  styles :: "nat \<Rightarrow> style"
  observer :: "nat set option"

text \<open>The callback of the \<^verbatim>\<open>forEach\<close> in \<^verbatim>\<open>init\<close>.\<close>

definition hideAndObserve :: "nat \<Rightarrow> anim \<Rightarrow> anim" where
  "hideAndObserve el a =
     a\<lparr>styles := (styles a)(el := (styles a el)
          \<lparr>opacity := ''0'',
           transform := ''translateY(20px)'',
           transition := ''opacity 0.6s ease, transform 0.6s ease''\<rparr>),
       observer := map_option (insert el) (observer a)\<rparr>"

definition AnimationObserver_init :: "bool \<Rightarrow> nat list \<Rightarrow> anim \<Rightarrow> anim" where
  "AnimationObserver_init prefersReducedMotion animatedElements a =
     (if prefersReducedMotion then a
      else fold hideAndObserve animatedElements (a\<lparr>observer := Some {}\<rparr>))"

text \<open>
  The callback of the \<^verbatim>\<open>forEach\<close> in \<^verbatim>\<open>handleIntersection\<close>. Without an observer
  \<^verbatim>\<open>this.observer.unobserve\<close> throws; the callback is only ever called by the observer.
\<close>

definition revealEntry :: "entry \<Rightarrow> anim \<Rightarrow> js_error + anim" where
  "revealEntry e a =
     (if isIntersecting e
      then (case observer a of
              None \<Rightarrow> Inl TypeError
            | Some watched \<Rightarrow>
                Inr (a\<lparr>styles := (styles a)(target e := (styles a (target e))
                          \<lparr>opacity := ''1'', transform := ''translateY(0)''\<rparr>),
                        observer := Some (watched - {target e})\<rparr>))
      else Inr a)"

fun handleIntersection :: "entry list \<Rightarrow> anim \<Rightarrow> js_error + anim" where
  "handleIntersection [] a = Inr a"
| "handleIntersection (e # es) a =
     (case revealEntry e a of
        Inl err \<Rightarrow> Inl err
      | Inr a' \<Rightarrow> handleIntersection es a')"

text \<open>A sequence of calls of the observer's callback, one list of entries each.\<close>

fun callbacks :: "entry list list \<Rightarrow> anim \<Rightarrow> js_error + anim" where
  "callbacks [] a = Inr a"
| "callbacks (es # ess) a =
     (case handleIntersection es a of
        Inl err \<Rightarrow> Inl err
      | Inr a' \<Rightarrow> callbacks ess a')"

section \<open>A small page\<close>

text \<open>
  A browser and a page as the constructor leaves it, for evaluating the functions
  above: two language buttons, one translated heading, and an empty \<^verbatim>\<open>#blog-posts\<close>
  container.
\<close>

definition exampleBrowser :: browser where
  "exampleBrowser =
     \<lparr>toLocaleDateString = (\<lambda>locale v. locale),
      numberText = (\<lambda>x. ''1e+21''),
      otherNonZero = (\<lambda>token. True),
      builtinMember = (\<lambda>k key. False),
      inheritedText = (\<lambda>k key. ''function'' ),
      selectorMatches = (\<lambda>sel. None)\<rparr>"

definition examplePage :: state where
  "examplePage =
     \<lparr>currentLanguage = Str ''en'', blogPosts = JArr [], mobileNavOpen = False,
      localStorage = Map.empty, documentLang = ''en'',
      documentTitle = ''Tom S. - Software Engineer'',
      metaDescription = Some ''Portfolio'',
      elements =
        [\<lparr>classList = [''lang-btn'', ''active''], dataset = [''lang'' \<mapsto> ''en''],
          textContent = ''EN'', placeholder = ''''\<rparr>,
         \<lparr>classList = [''lang-btn''], dataset = [''lang'' \<mapsto> ''fr''],
          textContent = ''FR'', placeholder = ''''\<rparr>,
         \<lparr>classList = [''hero-title''],
          dataset = [''en'' \<mapsto> ''Hello'', ''fr'' \<mapsto> ''Bonjour''],
          textContent = ''Hello'', placeholder = ''''\<rparr>],
      blogContainer = Some '''', warnings = [], requests = []\<rparr>"

text \<open>The same page once French is active.\<close>

definition frenchPage :: state where
  "frenchPage = examplePage\<lparr>currentLanguage := Str ''fr''\<rparr>"








text \<open>An observer over the elements 0 and 1, and entries for an element.\<close>

definition exampleAnim :: anim where
  "exampleAnim =
     \<lparr>styles = (\<lambda>_. \<lparr>opacity = '''', transform = '''', transition = ''''\<rparr>),
      observer = None\<rparr>"

definition watchingAnim :: anim where
  "watchingAnim = AnimationObserver_init False [0, 1] exampleAnim"

definition crossing :: "nat \<Rightarrow> entry" where
  "crossing el = \<lparr>target = el, isIntersecting = True\<rparr>"

definition leaving :: "nat \<Rightarrow> entry" where
  "leaving el = \<lparr>target = el, isIntersecting = False\<rparr>"

section \<open>Notions of the statements\<close>


text \<open>A fetch that failed: a network error, a status outside 200-299, or a body that does not parse.\<close>

fun isFailure :: "fetch_outcome \<Rightarrow> bool" where
  "isFailure NetworkError = True"
| "isFailure (Response status Malformed) = True"
| "isFailure (Response status (Json data)) = (\<not> responseOk status)"

text \<open>
  A post of the shape the README documents: an object whose \<^verbatim>\<open>title\<close> and \<^verbatim>\<open>excerpt\<close>
  are each a string or an object of strings, whose \<^verbatim>\<open>url\<close> and \<^verbatim>\<open>date\<close> are strings and
  whose \<^verbatim>\<open>readTime\<close>, if it has one, is a number.
\<close>

fun isString :: "json \<Rightarrow> bool" where
  "isString (JStr s) = True"
| "isString v = False"

fun isNumber :: "json \<Rightarrow> bool" where
  "isNumber (JNum x) = True"
| "isNumber v = False"

fun localizedText :: "json option \<Rightarrow> bool" where
  "localizedText (Some (JStr s)) = True"
| "localizedText (Some (JObj kvs)) = list_all (\<lambda>kv. isString (snd kv)) kvs"
| "localizedText v = False"

fun documentedPost :: "json \<Rightarrow> bool" where
  "documentedPost (JObj kvs) =
     (localizedText (map_of kvs ''title'') \<and> localizedText (map_of kvs ''excerpt'') \<and>
      (case map_of kvs ''url'' of Some v \<Rightarrow> isString v | None \<Rightarrow> False) \<and>
      (case map_of kvs ''date'' of Some v \<Rightarrow> isString v | None \<Rightarrow> False) \<and>
      (case map_of kvs ''readTime'' of Some v \<Rightarrow> isNumber v | None \<Rightarrow> True))"
| "documentedPost v = False"


text \<open>How often a string occurs in another, at any position.\<close>

fun startsWith :: "string \<Rightarrow> string \<Rightarrow> bool" where
  "startsWith [] ys = True"
| "startsWith (x # xs) [] = False"
| "startsWith (x # xs) (y # ys) = (x = y \<and> startsWith xs ys)"

fun occurrences :: "string \<Rightarrow> string \<Rightarrow> nat" where
  "occurrences pat [] = (if pat = [] then 1 else 0)"
| "occurrences pat (c # cs) = (if startsWith pat (c # cs) then 1 else 0) + occurrences pat cs"





text \<open>An element in its resting visible state that the observer no longer watches.\<close>

definition revealed :: "nat \<Rightarrow> anim \<Rightarrow> bool" where
  "revealed el a =
     (opacity (styles a el) = ''1'' \<and> transform (styles a el) = ''translateY(0)'' \<and>
      (case observer a of None \<Rightarrow> False | Some watched \<Rightarrow> el \<notin> watched))"

section \<open>The initial language\<close>

text \<open>
  C1. The language that \<^verbatim>\<open>handleInitialLanguage\<close> resolves and passes to
  \<^verbatim>\<open>switchLanguage\<close> is the stored preference whenever the stored value is exactly
  \<^verbatim>\<open>en\<close> or \<^verbatim>\<open>fr\<close>. For every other stored value, an absent key included, it is \<^verbatim>\<open>fr\<close>
  if and only if the primary subtag of the browser's locale is exactly \<^verbatim>\<open>fr\<close>, and
  \<^verbatim>\<open>en\<close> otherwise. It is a function of the stored value and the browser's locale alone.
\<close>

theorem initialLang_resolves:
  "(stored = Some ''en'' \<longrightarrow> initialLang stored nav = ''en'') \<and>
   (stored = Some ''fr'' \<longrightarrow> initialLang stored nav = ''fr'') \<and>
   (stored \<noteq> Some ''en'' \<and> stored \<noteq> Some ''fr'' \<longrightarrow>
      (initialLang stored nav = ''fr'' \<longleftrightarrow> primarySubtag nav = ''fr'') \<and>
      (primarySubtag nav \<noteq> ''fr'' \<longrightarrow> initialLang stored nav = ''en'')) \<and>
   handleInitialLanguage b nav s =
     switchLanguage b (Str (initialLang (localStorage s ''preferredLanguage'') nav)) s"
  by (auto simp: initialLang_def handleInitialLanguage_def Let_def split: option.splits)

theorem initialLang_resolves_witness:
  "initialLang (Some ''de'') ''fr-CA'' = ''fr'' \<and> initialLang None ''FR'' = ''en''"
  using initialLang_resolves [of "Some ''de''" "''fr-CA''"]
    initialLang_resolves [of None "''FR''"]
  by (simp add: primarySubtag_def)

section \<open>Switching the language\<close>

text \<open>
  C8. In every state, \<^verbatim>\<open>switchLanguage(lang)\<close> with \<^verbatim>\<open>lang\<close> equal to the current
  language returns with the state as it was: no write to the storage and no change to
  the document (language attribute, title, description, any element).
\<close>

theorem switchLanguage_same:
  "lang = currentLanguage s \<Longrightarrow> switchLanguage b lang s = Normal s"
  by (simp add: switchLanguage_def)

theorem switchLanguage_same_witness:
  "Str ''en'' = currentLanguage examplePage \<and>
   switchLanguage exampleBrowser (Str ''en'') examplePage = Normal examplePage"
proof -
  have h: "Str ''en'' = currentLanguage examplePage"
    by (simp add: examplePage_def)
  from switchLanguage_same [OF h] h show ?thesis by simp
qed

lemma examplePage_container: "blogContainer examplePage = Some ''''"
  by (simp add: examplePage_def)







lemma switchLanguage_throws:
  "lang \<noteq> currentLanguage s \<Longrightarrow> placeholderElements b (toStr lang) = None \<Longrightarrow>
     \<exists>s'. switchLanguage b lang s = Thrown SyntaxError s' \<and> currentLanguage s' = lang \<and>
       localStorage s' = localStorage s \<and> documentLang s' = documentLang s"
  by (simp add: switchLanguage_def updateTranslations_def Let_def)


section \<open>Translated text\<close>

lemma thenDo_Inr [simp]: "thenDo (Inr x) f = f x"
  by (simp add: thenDo_def)

lemma thenDo_Inl [simp]: "thenDo (Inl err) f = Inl err"
  by (simp add: thenDo_def)

lemma not_inherited_plain:
  "key \<notin> set objectPrototype \<Longrightarrow> \<not> inherited b PlainObject key"
  by (simp add: inherited_def)

lemma en_fr_own: "''en'' \<notin> set objectPrototype" "''fr'' \<notin> set objectPrototype"
  by (simp_all add: objectPrototype_def)

text \<open>
  C6. While the active language is \<^verbatim>\<open>fr\<close>, \<^verbatim>\<open>getTranslatedText\<close> returns \<^verbatim>\<open>"A"\<close> for
  the mapping \<^verbatim>\<open>{en: "A"}\<close> (the English fallback) and \<^verbatim>\<open>"B"\<close> for
  \<^verbatim>\<open>{en: "A", fr: "B"}\<close>; a plain string is returned unchanged.
\<close>

theorem getTranslatedText_examples:
  "currentLanguage s = Str ''fr'' \<Longrightarrow>
     getTranslatedText b s (Some (JObj [(''en'', JStr ''A'')])) = Inr (Val (JStr ''A'')) \<and>
     getTranslatedText b s (Some (JObj [(''en'', JStr ''A''), (''fr'', JStr ''B'')])) =
       Inr (Val (JStr ''B'')) \<and>
     getTranslatedText b s (Some (JStr str)) = Inr (Val (JStr str))"
  by (simp add: getTranslatedText_def not_inherited_plain en_fr_own)

theorem getTranslatedText_examples_witness:
  "currentLanguage frenchPage = Str ''fr'' \<and>
   getTranslatedText exampleBrowser frenchPage (Some (JObj [(''en'', JStr ''A'')])) =
     Inr (Val (JStr ''A'')) \<and>
   getTranslatedText exampleBrowser frenchPage
     (Some (JObj [(''en'', JStr ''A''), (''fr'', JStr ''B'')])) = Inr (Val (JStr ''B'')) \<and>
   getTranslatedText exampleBrowser frenchPage (Some (JStr ''C'')) = Inr (Val (JStr ''C''))"
proof -
  have h: "currentLanguage frenchPage = Str ''fr''"
    by (simp add: frenchPage_def)
  from getTranslatedText_examples [OF h, of exampleBrowser "''C''"] h show ?thesis by simp
qed

lemma frenchPage_language: "toStr (currentLanguage frenchPage) = ''fr''"
  by (simp add: frenchPage_def)

text \<open>
  C10, as the code has it. For an object that is not \<^verbatim>\<open>null\<close>, and an active language
  that does not name a member of \<^verbatim>\<open>Object.prototype\<close> (so for \<^verbatim>\<open>en\<close> and \<^verbatim>\<open>fr\<close>),
  \<^verbatim>\<open>getTranslatedText\<close> returns the entry of the active language when that entry is
  truthy (for a string: not empty); otherwise the \<^verbatim>\<open>en\<close> entry when that is truthy;
  otherwise the empty string. A truthy entry is returned as it is, string or not. On
  every such object and for every language it returns; on \<^verbatim>\<open>null\<close> and \<^verbatim>\<open>undefined\<close> it
  throws.
\<close>

theorem getTranslatedText_mapping:
  "(toStr (currentLanguage s) \<notin> set objectPrototype \<longrightarrow>
      (\<forall>v. map_of kvs (toStr (currentLanguage s)) = Some v \<and> truthyJson b v \<longrightarrow>
           getTranslatedText b s (Some (JObj kvs)) = Inr (Val v)) \<and>
      (map_of kvs (toStr (currentLanguage s)) = None \<or>
       (\<exists>v. map_of kvs (toStr (currentLanguage s)) = Some v \<and> \<not> truthyJson b v) \<longrightarrow>
         (\<forall>v. map_of kvs ''en'' = Some v \<and> truthyJson b v \<longrightarrow>
              getTranslatedText b s (Some (JObj kvs)) = Inr (Val v)) \<and>
         (map_of kvs ''en'' = None \<or> (\<exists>v. map_of kvs ''en'' = Some v \<and> \<not> truthyJson b v) \<longrightarrow>
              getTranslatedText b s (Some (JObj kvs)) = Inr (Val (JStr ''''))))) \<and>
   (\<exists>v. getTranslatedText b s (Some (JObj kvs)) = Inr v) \<and>
   getTranslatedText b s (Some JNull) = Inl TypeError \<and>
   getTranslatedText b s None = Inl TypeError"
  by (auto simp: getTranslatedText_def not_inherited_plain en_fr_own split: option.splits)

theorem getTranslatedText_mapping_witness:
  "getTranslatedText exampleBrowser frenchPage
     (Some (JObj [(''fr'', JStr ''''), (''en'', JStr ''A'')])) = Inr (Val (JStr ''A'')) \<and>
   getTranslatedText exampleBrowser frenchPage
     (Some (JObj [(''fr'', JStr ''B''), (''en'', JStr ''A'')])) = Inr (Val (JStr ''B'')) \<and>
   getTranslatedText exampleBrowser frenchPage (Some (JObj [])) = Inr (Val (JStr ''''))"
  using getTranslatedText_mapping
      [of frenchPage "[(''fr'', JStr ''''), (''en'', JStr ''A'')]" exampleBrowser]
    getTranslatedText_mapping
      [of frenchPage "[(''fr'', JStr ''B''), (''en'', JStr ''A'')]" exampleBrowser]
    getTranslatedText_mapping [of frenchPage "[]" exampleBrowser]
  by (simp add: frenchPage_language en_fr_own)

text \<open>
  An entry for the active language that is truthy but not a string is returned, not
  skipped: for \<^verbatim>\<open>{fr: 5, en: "A"}\<close> under \<^verbatim>\<open>fr\<close> the result is the number 5. And were
  the active language \<^verbatim>\<open>constructor\<close>, \<^verbatim>\<open>{en: "A"}\<close> would give the inherited member.
\<close>

theorem getTranslatedText_number_counterexample:
  "getTranslatedText exampleBrowser frenchPage
     (Some (JObj [(''fr'', JNum (Natural 5)), (''en'', JStr ''A'')])) = Inr (Val (JNum (Natural 5))) \<and>
   Val (JNum (Natural 5)) \<noteq> Val (JStr ''A'') \<and>
   getTranslatedText exampleBrowser (examplePage\<lparr>currentLanguage := Str ''constructor''\<rparr>)
     (Some (JObj [(''en'', JStr ''A'')])) = Inr (Inherited PlainObject ''constructor'')"
  by (simp add: getTranslatedText_def frenchPage_language inherited_def objectPrototype_def)

section \<open>Rendering posts\<close>

lemma isString_cases: "isString v \<Longrightarrow> \<exists>str. v = JStr str"
  by (cases v) simp_all

lemma isNumber_cases: "isNumber v \<Longrightarrow> \<exists>x. v = JNum x"
  by (cases v) simp_all

lemma map_of_strings:
  "list_all (\<lambda>kv. isString (snd kv)) kvs \<Longrightarrow> map_of kvs key = Some v \<Longrightarrow> \<exists>str. v = JStr str"
proof -
  assume a: "list_all (\<lambda>kv. isString (snd kv)) kvs" and m: "map_of kvs key = Some v"
  from m have "(key, v) \<in> set kvs" by (rule map_of_SomeD)
  with a have "isString v" by (auto simp: list_all_iff)
  then show ?thesis by (rule isString_cases)
qed

lemma getMember_strings:
  "list_all (\<lambda>kv. isString (snd kv)) kvs \<Longrightarrow>
     \<exists>v. getMember b (JObj kvs) key = Inr v \<and> (\<exists>str. toStringVal b v = Inr str)"
proof (cases "map_of kvs key")
  case None
  then show ?thesis by simp
next
  case (Some v)
  assume "list_all (\<lambda>kv. isString (snd kv)) kvs"
  from map_of_strings [OF this Some] Some show ?thesis by auto
qed

lemma getTranslatedText_localized:
  "localizedText t \<Longrightarrow>
     \<exists>v str. getTranslatedText b s t = Inr v \<and> toStringVal b v = Inr str"
proof (induction t rule: localizedText.induct)
  case (1 str)
  then show ?case by (simp add: getTranslatedText_def)
next
  case (2 kvs)
  then have strs: "list_all (\<lambda>kv. isString (snd kv)) kvs" by simp
  from getMember_strings [OF strs, of b "toStr (currentLanguage s)"]
  obtain a sa where a: "getMember b (JObj kvs) (toStr (currentLanguage s)) = Inr a"
    and sa: "toStringVal b a = Inr sa" by blast
  from getMember_strings [OF strs, of b "''en''"]
  obtain e se where e: "getMember b (JObj kvs) ''en'' = Inr e"
    and se: "toStringVal b e = Inr se" by blast
  show ?case
    unfolding getTranslatedText_def using a sa e se by (simp del: getMember.simps)
qed simp_all

lemma readTimeSuffix_number:
  "\<exists>str. readTimeSuffix b (Val (JNum x)) = Inr str"
  by (simp add: readTimeSuffix_def)

lemma documentedPost_interpolates:
  "documentedPost p \<Longrightarrow> \<exists>c. interpolate b s (Some p) = Inr c"
proof (cases p)
  case (JObj kvs)
  assume d: "documentedPost p"
  with JObj have t: "localizedText (map_of kvs ''title'')"
    and e: "localizedText (map_of kvs ''excerpt'')" by simp_all
  from d JObj obtain u where u: "map_of kvs ''url'' = Some (JStr u)"
    by (auto split: option.splits dest: isString_cases)
  from d JObj obtain dt where dt: "map_of kvs ''date'' = Some (JStr dt)"
    by (auto split: option.splits dest: isString_cases)
  from d JObj have "map_of kvs ''readTime'' = None \<or> (\<exists>x. map_of kvs ''readTime'' = Some (JNum x))"
    by (auto split: option.splits dest: isNumber_cases)
  then have "\<exists>sfx. readTimeSuffix b (fromOption (map_of kvs ''readTime'')) = Inr sfx"
  proof
    assume "map_of kvs ''readTime'' = None"
    then show ?thesis by (simp add: readTimeSuffix_def)
  next
    assume "\<exists>x. map_of kvs ''readTime'' = Some (JNum x)"
    then obtain x where "map_of kvs ''readTime'' = Some (JNum x)" by blast
    with readTimeSuffix_number [of b x] show ?thesis by simp
  qed
  then obtain sfx where r: "readTimeSuffix b (fromOption (map_of kvs ''readTime'')) = Inr sfx"
    by blast
  from getTranslatedText_localized [OF t, of b s]
  obtain tv ts where tv: "getTranslatedText b s (map_of kvs ''title'') = Inr tv"
    and ts: "toStringVal b tv = Inr ts" by blast
  from getTranslatedText_localized [OF e, of b s]
  obtain ev es where ev: "getTranslatedText b s (map_of kvs ''excerpt'') = Inr ev"
    and es: "toStringVal b ev = Inr es" by blast
  show ?thesis
    by (simp add: interpolate_def JObj u dt r tv ts ev es)
qed simp_all

lemma getTranslatedText_language:
  "currentLanguage s' = currentLanguage s \<Longrightarrow> getTranslatedText b s' t = getTranslatedText b s t"
  by (simp add: getTranslatedText_def cong: option.case_cong json.case_cong)

lemma interpolate_language:
  "currentLanguage s' = currentLanguage s \<Longrightarrow> interpolate b s' p = interpolate b s p"
  by (simp add: interpolate_def formatDate_def getTranslatedText_language [of s' s])

lemma placeholderPosts_shape:
  "\<exists>p1 p2 p3. placeholderPosts = [p1, p2, p3] \<and>
     documentedPost p1 \<and> documentedPost p2 \<and> documentedPost p3"
  by (simp add: placeholderPosts_def literalPost_def)

lemma length_placeholderPosts: "length placeholderPosts = 3"
  by (simp add: placeholderPosts_def)














lemma occurrences_none:
  "CHR ''<'' \<notin> set xs \<Longrightarrow> occurrences (CHR ''<'' # pat) xs = 0"
  by (induction xs) auto



lemma renderBlogPlaceholder_returns:
  "\<exists>c1 c2 c3.
     interpolate b s (Some (placeholderPosts ! 0)) = Inr c1 \<and>
     interpolate b s (Some (placeholderPosts ! 1)) = Inr c2 \<and>
     interpolate b s (Some (placeholderPosts ! 2)) = Inr c3 \<and>
     renderBlogPlaceholder b s =
       Inr (s\<lparr>blogContainer :=
              map_option
                (\<lambda>_. placeholderTemplate c1 @ placeholderTemplate c2 @ placeholderTemplate c3)
                (blogContainer s)\<rparr>)"
proof -
  from placeholderPosts_shape obtain p1 p2 p3 where ps: "placeholderPosts = [p1, p2, p3]"
    and d1: "documentedPost p1" and d2: "documentedPost p2" and d3: "documentedPost p3"
    by blast
  from documentedPost_interpolates [OF d1, of b s] obtain c1
    where c1: "interpolate b s (Some p1) = Inr c1" by blast
  from documentedPost_interpolates [OF d2, of b s] obtain c2
    where c2: "interpolate b s (Some p2) = Inr c2" by blast
  from documentedPost_interpolates [OF d3, of b s] obtain c3
    where c3: "interpolate b s (Some p3) = Inr c3" by blast
  have "renderBlogPlaceholder b s =
      Inr (s\<lparr>blogContainer :=
             map_option
               (\<lambda>_. placeholderTemplate c1 @ placeholderTemplate c2 @ placeholderTemplate c3)
               (blogContainer s)\<rparr>)"
    by (cases "blogContainer s")
      (simp_all add: renderBlogPlaceholder_def ps placeholderArticle_def c1 c2 c3)
  with c1 c2 c3 show ?thesis
    by (simp add: ps)
qed











section \<open>The cards of a list of posts\<close>















section \<open>Loading posts\<close>

lemma awaitData_failure: "isFailure outcome \<Longrightarrow> \<exists>err. awaitData outcome = Inl err"
  by (cases outcome rule: isFailure.cases) (auto simp: awaitData_def)



lemma catchBlock_returns:
  "\<exists>c1 c2 c3.
     interpolate b s (Some (placeholderPosts ! 0)) = Inr c1 \<and>
     interpolate b s (Some (placeholderPosts ! 1)) = Inr c2 \<and>
     interpolate b s (Some (placeholderPosts ! 2)) = Inr c3 \<and>
     catchBlock b err s =
       s\<lparr>blogContainer :=
            map_option
              (\<lambda>_. placeholderTemplate c1 @ placeholderTemplate c2 @ placeholderTemplate c3)
              (blogContainer s),
          warnings := warnings s @ [(''Could not load blog posts:'', err)]\<rparr>"
proof -
  define s1 where "s1 = s\<lparr>warnings := warnings s @ [(''Could not load blog posts:'', err)]\<rparr>"
  have lang: "currentLanguage s1 = currentLanguage s"
    by (simp add: s1_def)
  note il = interpolate_language [OF lang, of b]
  from renderBlogPlaceholder_returns [of b s1] obtain c1 c2 c3
    where c: "interpolate b s (Some (placeholderPosts ! 0)) = Inr c1"
      "interpolate b s (Some (placeholderPosts ! 1)) = Inr c2"
      "interpolate b s (Some (placeholderPosts ! 2)) = Inr c3"
      and r: "renderBlogPlaceholder b s1 =
        Inr (s1\<lparr>blogContainer :=
               map_option
                 (\<lambda>_. placeholderTemplate c1 @ placeholderTemplate c2 @ placeholderTemplate c3)
                 (blogContainer s1)\<rparr>)"
    unfolding il by blast
  have "catchBlock b err s =
      s1\<lparr>blogContainer :=
           map_option
             (\<lambda>_. placeholderTemplate c1 @ placeholderTemplate c2 @ placeholderTemplate c3)
             (blogContainer s1)\<rparr>"
    unfolding catchBlock_def by (simp add: s1_def [symmetric] r)
  then have "catchBlock b err s =
      s\<lparr>blogContainer :=
           map_option
             (\<lambda>_. placeholderTemplate c1 @ placeholderTemplate c2 @ placeholderTemplate c3)
             (blogContainer s),
         warnings := warnings s @ [(''Could not load blog posts:'', err)]\<rparr>"
    by (simp add: s1_def)
  with c show ?thesis by blast
qed

text \<open>
  C2. For every fetch that fails (network error, status outside 2xx, body that does not
  parse), \<^verbatim>\<open>loadBlogPosts\<close> logs one warning, issues the one request and no other, and
  leaves the page as it was except for the blog container, whose markup is exactly the
  three placeholder posts, each interpolated into the placeholder template.
\<close>

theorem loadBlogPosts_failure:
  "isFailure outcome \<Longrightarrow>
     \<exists>err c1 c2 c3.
       length placeholderPosts = 3 \<and>
       interpolate b s (Some (placeholderPosts ! 0)) = Inr c1 \<and>
       interpolate b s (Some (placeholderPosts ! 1)) = Inr c2 \<and>
       interpolate b s (Some (placeholderPosts ! 2)) = Inr c3 \<and>
       loadBlogPosts b outcome s =
         s\<lparr>blogContainer :=
              map_option
                (\<lambda>_. placeholderTemplate c1 @ placeholderTemplate c2 @ placeholderTemplate c3)
                (blogContainer s),
            warnings := warnings s @ [(''Could not load blog posts:'', err)],
            requests := requests s @ [''blog/posts.json'']\<rparr>"
proof -
  assume "isFailure outcome"
  then obtain err where e: "awaitData outcome = Inl err"
    using awaitData_failure by blast
  define s1 where "s1 = s\<lparr>requests := requests s @ [''blog/posts.json'']\<rparr>"
  have lang: "currentLanguage s1 = currentLanguage s"
    by (simp add: s1_def)
  note il = interpolate_language [OF lang, of b]
  from catchBlock_returns [of b s1 err] obtain c1 c2 c3
    where c: "interpolate b s (Some (placeholderPosts ! 0)) = Inr c1"
      "interpolate b s (Some (placeholderPosts ! 1)) = Inr c2"
      "interpolate b s (Some (placeholderPosts ! 2)) = Inr c3"
      and r: "catchBlock b err s1 =
        s1\<lparr>blogContainer :=
             map_option
               (\<lambda>_. placeholderTemplate c1 @ placeholderTemplate c2 @ placeholderTemplate c3)
               (blogContainer s1),
           warnings := warnings s1 @ [(''Could not load blog posts:'', err)]\<rparr>"
    unfolding il by blast
  have "loadBlogPosts b outcome s = catchBlock b err s1"
    by (simp add: loadBlogPosts_def e s1_def)
  with r have "loadBlogPosts b outcome s =
      s\<lparr>blogContainer :=
           map_option
             (\<lambda>_. placeholderTemplate c1 @ placeholderTemplate c2 @ placeholderTemplate c3)
             (blogContainer s),
         warnings := warnings s @ [(''Could not load blog posts:'', err)],
         requests := requests s @ [''blog/posts.json'']\<rparr>"
    by (simp add: s1_def)
  with c length_placeholderPosts show ?thesis
    by blast
qed

theorem loadBlogPosts_failure_witness:
  "isFailure (Response 404 (Json (JObj []))) \<and>
   (\<exists>err c1 c2 c3.
      loadBlogPosts exampleBrowser (Response 404 (Json (JObj []))) examplePage =
        examplePage\<lparr>blogContainer :=
             Some (placeholderTemplate c1 @ placeholderTemplate c2 @ placeholderTemplate c3),
           warnings := [(''Could not load blog posts:'', err)],
           requests := [''blog/posts.json'']\<rparr>)"
proof -
  have f: "isFailure (Response 404 (Json (JObj [])))"
    by (simp add: responseOk_def)
  have w: "warnings examplePage = []" "requests examplePage = []"
    by (simp_all add: examplePage_def)
  from loadBlogPosts_failure [OF f, of exampleBrowser examplePage] f show ?thesis
    by (auto simp: examplePage_container w)
qed










section \<open>Reveal on scroll, once\<close>

lemma fold_hideAndObserve_observer:
  "observer a = Some watched \<Longrightarrow>
     observer (fold hideAndObserve els a) = Some (watched \<union> set els)"
  by (induction els arbitrary: a watched) (auto simp: hideAndObserve_def)

lemma init_observer:
  "observer (AnimationObserver_init False els a) = Some (set els)"
  by (simp add: AnimationObserver_init_def fold_hideAndObserve_observer)

lemma revealEntry_total:
  "observer a = Some watched \<Longrightarrow>
     \<exists>a' watched'. revealEntry e a = Inr a' \<and> observer a' = Some watched'"
  by (simp add: revealEntry_def)

lemma revealEntry_crossing:
  "observer a = Some watched \<Longrightarrow> isIntersecting e \<Longrightarrow> revealEntry e a = Inr a' \<Longrightarrow>
     revealed (target e) a' \<and> transition (styles a' (target e)) = transition (styles a (target e))"
  by (auto simp: revealEntry_def revealed_def)

lemma revealEntry_revealed:
  "revealed el a \<Longrightarrow> revealEntry e a = Inr a' \<Longrightarrow>
     revealed el a' \<and> styles a' el = styles a el"
  by (auto simp: revealEntry_def revealed_def split: if_splits option.splits)

lemma revealEntry_transition:
  "revealEntry e a = Inr a' \<Longrightarrow> transition (styles a' el) = transition (styles a el)"
  by (auto simp: revealEntry_def split: if_splits option.splits)

lemma handleIntersection_total:
  "observer a = Some watched \<Longrightarrow>
     \<exists>a' watched'. handleIntersection es a = Inr a' \<and> observer a' = Some watched'"
proof (induction es arbitrary: a watched)
  case Nil
  then show ?case by simp
next
  case (Cons e es)
  from revealEntry_total [OF Cons.prems, of e]
  obtain a1 w1 where r: "revealEntry e a = Inr a1" and o: "observer a1 = Some w1"
    by blast
  from Cons.IH [OF o] r show ?case by simp
qed

lemma handleIntersection_revealed:
  "revealed el a \<Longrightarrow> handleIntersection es a = Inr a' \<Longrightarrow>
     revealed el a' \<and> styles a' el = styles a el"
proof (induction es arbitrary: a)
  case Nil
  then show ?case by simp
next
  case (Cons e es)
  from Cons.prems(2) obtain a1 where r: "revealEntry e a = Inr a1"
    and h: "handleIntersection es a1 = Inr a'"
    by (auto split: sum.splits)
  from revealEntry_revealed [OF Cons.prems(1) r] Cons.IH [OF _ h] show ?case
    by simp
qed

lemma handleIntersection_transition:
  "handleIntersection es a = Inr a' \<Longrightarrow> transition (styles a' el) = transition (styles a el)"
proof (induction es arbitrary: a)
  case Nil
  then show ?case by simp
next
  case (Cons e es)
  from Cons.prems obtain a1 where r: "revealEntry e a = Inr a1"
    and h: "handleIntersection es a1 = Inr a'"
    by (auto split: sum.splits)
  from revealEntry_transition [OF r, of el] Cons.IH [OF h] show ?case
    by simp
qed

lemma handleIntersection_crossing:
  "observer a = Some watched \<Longrightarrow> e \<in> set es \<Longrightarrow> isIntersecting e \<Longrightarrow>
     handleIntersection es a = Inr a' \<Longrightarrow> revealed (target e) a'"
proof (induction es arbitrary: a watched)
  case Nil
  then show ?case by simp
next
  case (Cons x es)
  from Cons.prems(4) obtain a1 where r: "revealEntry x a = Inr a1"
    and h: "handleIntersection es a1 = Inr a'"
    by (auto split: sum.splits)
  from revealEntry_total [OF Cons.prems(1), of x] r
  obtain w1 where o: "observer a1 = Some w1"
    by auto
  show ?case
  proof (cases "x = e")
    case True
    with revealEntry_crossing [OF Cons.prems(1) _ r] Cons.prems(3)
    have "revealed (target e) a1" by simp
    from handleIntersection_revealed [OF this h] show ?thesis by simp
  next
    case False
    with Cons.prems(2) have "e \<in> set es" by simp
    from Cons.IH [OF o this Cons.prems(3) h] show ?thesis .
  qed
qed

lemma callbacks_revealed:
  "revealed el a \<Longrightarrow>
     \<exists>a'. callbacks ess a = Inr a' \<and> revealed el a' \<and> styles a' el = styles a el"
proof (induction ess arbitrary: a)
  case Nil
  then show ?case by simp
next
  case (Cons es ess)
  from Cons.prems obtain watched where "observer a = Some watched"
    by (auto simp: revealed_def split: option.splits)
  from handleIntersection_total [OF this, of es]
  obtain a1 where h: "handleIntersection es a = Inr a1"
    by blast
  from handleIntersection_revealed [OF Cons.prems h]
  have r: "revealed el a1" and s: "styles a1 el = styles a el"
    by simp_all
  from Cons.IH [OF r] s h show ?case
    by auto
qed

text \<open>
  C9. For a watched element, the callback that brings an intersecting entry for it
  returns, puts the element in its resting visible state (opacity 1, no offset, the
  transition untouched) and stops watching it. After that, every further sequence of
  callbacks, whatever entries they bring, returns and leaves the element's style as it
  is and the element unwatched.
\<close>

theorem reveal_one_shot:
  "observer a = Some watched \<Longrightarrow> target e \<in> watched \<Longrightarrow> e \<in> set es \<Longrightarrow>
   isIntersecting e \<Longrightarrow>
     \<exists>a1. handleIntersection es a = Inr a1 \<and>
       revealed (target e) a1 \<and>
       transition (styles a1 (target e)) = transition (styles a (target e)) \<and>
       (\<forall>ess. \<exists>a2. callbacks ess a1 = Inr a2 \<and>
          revealed (target e) a2 \<and> styles a2 (target e) = styles a1 (target e))"
proof -
  assume o: "observer a = Some watched" and e: "e \<in> set es" and i: "isIntersecting e"
  from handleIntersection_total [OF o, of es]
  obtain a1 where h: "handleIntersection es a = Inr a1"
    by blast
  from handleIntersection_crossing [OF o e i h] have r: "revealed (target e) a1" .
  from callbacks_revealed [OF r] handleIntersection_transition [OF h] h r
  show ?thesis by blast
qed

theorem reveal_one_shot_witness:
  "observer watchingAnim = Some {0, 1} \<and> target (crossing 0) \<in> {0, 1} \<and>
   crossing 0 \<in> set [leaving 1, crossing 0] \<and> isIntersecting (crossing 0) \<and>
   (\<exists>a1. handleIntersection [leaving 1, crossing 0] watchingAnim = Inr a1 \<and>
      revealed 0 a1 \<and>
      (\<forall>ess. \<exists>a2. callbacks ess a1 = Inr a2 \<and> revealed 0 a2 \<and> styles a2 0 = styles a1 0))"
proof -
  have o: "observer watchingAnim = Some {0, 1}"
    by (simp add: watchingAnim_def init_observer insert_commute)
  have tc: "target (crossing 0) = 0"
    by (simp add: crossing_def)
  have t: "target (crossing 0) \<in> {0, 1}"
    by (simp add: tc)
  have m: "crossing 0 \<in> set [leaving 1, crossing 0]"
    by simp
  have i: "isIntersecting (crossing 0)"
    by (simp add: crossing_def)
  note r = reveal_one_shot [OF o t m i, unfolded tc]
  from r o t m i show ?thesis
    by blast
qed

end
